theory Spec2Isabelle
  imports
    Complex_Main
    "HOL-Library.AList"
    "HOL-Library.Multiset"
    "HOL-Library.Char_ord"
    "HOL-Library.List_Lexorder"
begin

section \<open>AuraFX: rate cache and derived analytics\<close>

text \<open>
  The development embeds the data-access service
  (\<^verbatim>\<open>src/app/services/frankfurter-api.service.ts\<close>) and the numeric procedures of the
  chart, analytics-card and market-overview components. Strings are lists of
  characters with code units below 256; the clock (\<^verbatim>\<open>Date.now()\<close>) is an integer
  number of milliseconds passed in by the caller.
\<close>

subsection \<open>Strings\<close>

text \<open>\<^verbatim>\<open>String.prototype.trim\<close>: the white space of the first 256 code units.\<close>

definition isWhiteSpace :: "char \<Rightarrow> bool" where
  "isWhiteSpace c = (of_char c \<in> {9, 10, 11, 12, 13, 32, 160 :: nat})"

definition trim :: "string \<Rightarrow> string" where
  "trim s = rev (dropWhile isWhiteSpace (rev (dropWhile isWhiteSpace s)))"

text \<open>
  \<^verbatim>\<open>String.prototype.toUpperCase\<close>. Of the first 256 code units only the letters
  \<^verbatim>\<open>a-z\<close> and the sharp s (223, which becomes \<^verbatim>\<open>SS\<close>) have an upper case within
  \<^verbatim>\<open>A-Z\<close>; every other character is left as it is here, which is all that the
  callers, who delete everything outside \<^verbatim>\<open>A-Z\<close> next, can see.
\<close>

definition upperChar :: "char \<Rightarrow> string" where
  "upperChar c =
     (if CHR ''a'' \<le> c \<and> c \<le> CHR ''z'' then [char_of (of_char c - (32::nat))]
      else if of_char c = (223::nat) then ''SS''
      else [c])"

definition toUpperCase :: "string \<Rightarrow> string" where
  "toUpperCase s = concat (map upperChar s)"

definition isAZ :: "char \<Rightarrow> bool" where
  "isAZ c = (CHR ''A'' \<le> c \<and> c \<le> CHR ''Z'')"

text \<open>The regular expression \<^verbatim>\<open>/^[A-Z]{3}$/\<close>.\<close>

definition isCurrencyCode :: "string \<Rightarrow> bool" where
  "isCurrencyCode s = (length s = 3 \<and> list_all isAZ s)"

text \<open>\<^verbatim>\<open>Array.prototype.join\<close> on strings.\<close>

fun join :: "string \<Rightarrow> string list \<Rightarrow> string" where
  "join sep [] = []"
| "join sep [x] = x"
| "join sep (x # y # ys) = x @ sep @ join sep (y # ys)"

text \<open>
  \<^verbatim>\<open>slice(start, end)\<close> of arrays and strings for integer arguments: a negative
  index counts from the end, and both ends are clipped to the length.
\<close>

definition slice :: "'a list \<Rightarrow> int \<Rightarrow> int \<Rightarrow> 'a list" where
  "slice xs start end =
     (let n = int (length xs);
          k = (if start < 0 then max (n + start) 0 else min start n);
          final = (if end < 0 then max (n + end) 0 else min end n)
      in take (nat (final - k)) (drop (nat k) xs))"

text \<open>\<^verbatim>\<open>slice(start)\<close>: the end defaults to the length.\<close>

definition sliceFrom :: "'a list \<Rightarrow> int \<Rightarrow> 'a list" where
  "sliceFrom xs start = slice xs start (int (length xs))"

subsection \<open>Input sanitizers of the service\<close>

text \<open>
  \<^verbatim>\<open>sanitizeCurrencyCode\<close>: the empty string is falsy and gives the default; the
  callers modelled here pass strings, so the \<^verbatim>\<open>typeof\<close> test is decided by the type.
\<close>

definition sanitizeCurrencyCode :: "string \<Rightarrow> string" where
  "sanitizeCurrencyCode code =
     (if code = [] then ''EUR''
      else (let sanitized = slice (filter isAZ (toUpperCase (trim code))) 0 3
            in if isCurrencyCode sanitized then sanitized else ''EUR''))"

text \<open>
  \<^verbatim>\<open>Array.from(new Set(xs))\<close>: a set keeps its elements in the order of their first
  insertion.
\<close>

definition setAdd :: "'a list \<Rightarrow> 'a \<Rightarrow> 'a list" where
  "setAdd acc x = (if x \<in> set acc then acc else acc @ [x])"

definition arrayFromSet :: "'a list \<Rightarrow> 'a list" where
  "arrayFromSet xs = foldl setAdd [] xs"

text \<open>
  \<^verbatim>\<open>sanitizeCurrencyArray\<close>: \<open>None\<close> is a missing argument (\<^verbatim>\<open>undefined\<close>, not an
  array).
\<close>

definition sanitizeCurrencyArray :: "string list option \<Rightarrow> string list" where
  "sanitizeCurrencyArray codes =
     (case codes of
        None \<Rightarrow> []
      | Some cs \<Rightarrow> arrayFromSet (filter isCurrencyCode (map sanitizeCurrencyCode cs)))"

subsection \<open>The cache\<close>

record 'a CacheEntry =
  data :: 'a
  timestamp :: int

text \<open>
  The \<^verbatim>\<open>Map\<close> is an association list in insertion order: \<^verbatim>\<open>get\<close> is \<open>map_of\<close>,
  \<^verbatim>\<open>set\<close> is \<open>AList.update\<close> (an existing key keeps its place, a new one goes to the
  end), \<^verbatim>\<open>delete\<close> is \<open>AList.delete\<close>, \<^verbatim>\<open>size\<close> is \<open>length\<close>.
\<close>

type_synonym 'a cache = "(string \<times> 'a CacheEntry) list"

definition cacheTimeout :: int where
  "cacheTimeout = 5 * 60 * 1000"

definition maxCacheSize :: nat where
  "maxCacheSize = 100"

definition retryAttempts :: nat where
  "retryAttempts = 2"

text \<open>\<^verbatim>\<open>getCached\<close> returns the value and the cache it leaves behind.\<close>

definition getCached :: "int \<Rightarrow> string \<Rightarrow> 'a cache \<Rightarrow> 'a option \<times> 'a cache" where
  "getCached now key cache =
     (case map_of cache key of
        Some cached \<Rightarrow>
          if now - timestamp cached < cacheTimeout then (Some (data cached), cache)
          else (None, AList.delete key cache)
      | None \<Rightarrow> (None, cache))"

text \<open>
  The loop of \<^verbatim>\<open>evictOldestCacheEntry\<close> over \<^verbatim>\<open>cache.entries()\<close>, with its two
  variables \<^verbatim>\<open>oldestKey\<close> and \<^verbatim>\<open>oldestTimestamp\<close>.
\<close>

fun oldestScan :: "'a cache \<Rightarrow> string option \<Rightarrow> int \<Rightarrow> string option \<times> int" where
  "oldestScan [] oldestKey oldestTimestamp = (oldestKey, oldestTimestamp)"
| "oldestScan ((key, entry) # rest) oldestKey oldestTimestamp =
     (if timestamp entry < oldestTimestamp
      then oldestScan rest (Some key) (timestamp entry)
      else oldestScan rest oldestKey oldestTimestamp)"

text \<open>\<^verbatim>\<open>if (oldestKey)\<close>: \<^verbatim>\<open>null\<close> and the empty string are falsy.\<close>

definition evictOldestCacheEntry :: "int \<Rightarrow> 'a cache \<Rightarrow> 'a cache" where
  "evictOldestCacheEntry now cache =
     (case fst (oldestScan cache None now) of
        None \<Rightarrow> cache
      | Some oldestKey \<Rightarrow> if oldestKey \<noteq> [] then AList.delete oldestKey cache else cache)"

text \<open>
  \<^verbatim>\<open>setCache\<close>: the two readings of the clock in one call are the same instant
  \<open>now\<close>.
\<close>

definition setCache :: "int \<Rightarrow> string \<Rightarrow> 'a \<Rightarrow> 'a cache \<Rightarrow> 'a cache" where
  "setCache now key d cache =
     (let cache1 = (if length cache \<ge> maxCacheSize then evictOldestCacheEntry now cache
                    else cache)
      in AList.update key \<lparr>data = d, timestamp = now\<rparr> cache1)"

text \<open>
  \<^verbatim>\<open>buildCacheKey(...parts)\<close>: a part is a string, an array of strings or
  \<^verbatim>\<open>undefined\<close>.
\<close>

datatype part = Str string | Arr "string list" | Undefined

definition partText :: "part \<Rightarrow> string" where
  "partText p =
     (case p of
        Arr xs \<Rightarrow> if length xs > 0 then join '','' xs else ''all''
      | Str s \<Rightarrow> s
      | Undefined \<Rightarrow> [])"

definition buildCacheKey :: "part list \<Rightarrow> string" where
  "buildCacheKey parts =
     (let sanitized = join ''_'' (filter (\<lambda>p. length p > 0) (map partText parts))
      in slice sanitized 0 200)"

text \<open>
  A cache filled to capacity within one reading of the clock: one hundred entries
  under distinct keys, all stamped with the instant 1000.
\<close>

definition sameInstantCache :: "nat cache" where
  "sameInstantCache =
     map (\<lambda>i. (replicate (Suc i) CHR ''k'', \<lparr>data = i, timestamp = 1000\<rparr>)) [0..<100]"

subsection \<open>Numbers\<close>

text \<open>
  A JavaScript number is a finite value, one of the two infinities, or \<^verbatim>\<open>NaN\<close>.
  Arithmetic on finite values is exact here: rounding and overflow to infinity are
  not modelled, and there is a single zero (\<^verbatim>\<open>x / 0\<close> takes the zero as positive).
  The special values follow IEEE 754: \<^verbatim>\<open>NaN\<close> is contagious and every comparison
  with it is false.
\<close>

datatype jsnum = Fin real | PosInf | NegInf | NaN

fun isFinite :: "jsnum \<Rightarrow> bool" where
  "isFinite (Fin a) = True"
| "isFinite x = False"

fun finVal :: "jsnum \<Rightarrow> real" where
  "finVal (Fin a) = a"
| "finVal x = 0"

fun js_neg :: "jsnum \<Rightarrow> jsnum" where
  "js_neg (Fin a) = Fin (- a)"
| "js_neg PosInf = NegInf"
| "js_neg NegInf = PosInf"
| "js_neg NaN = NaN"

fun js_add :: "jsnum \<Rightarrow> jsnum \<Rightarrow> jsnum" where
  "js_add (Fin a) (Fin b) = Fin (a + b)"
| "js_add NaN y = NaN"
| "js_add x NaN = NaN"
| "js_add PosInf NegInf = NaN"
| "js_add NegInf PosInf = NaN"
| "js_add (Fin a) y = y"
| "js_add x y = x"

definition js_sub :: "jsnum \<Rightarrow> jsnum \<Rightarrow> jsnum" where
  "js_sub x y = js_add x (js_neg y)"

fun js_mul :: "jsnum \<Rightarrow> jsnum \<Rightarrow> jsnum" where
  "js_mul (Fin a) (Fin b) = Fin (a * b)"
| "js_mul NaN y = NaN"
| "js_mul x NaN = NaN"
| "js_mul (Fin a) y = (if a = 0 then NaN else if a > 0 then y else js_neg y)"
| "js_mul x (Fin b) = (if b = 0 then NaN else if b > 0 then x else js_neg x)"
| "js_mul PosInf y = y"
| "js_mul NegInf y = js_neg y"

fun js_div :: "jsnum \<Rightarrow> jsnum \<Rightarrow> jsnum" where
  "js_div (Fin a) (Fin b) =
     (if b \<noteq> 0 then Fin (a / b)
      else if a = 0 then NaN else if a > 0 then PosInf else NegInf)"
| "js_div NaN y = NaN"
| "js_div x NaN = NaN"
| "js_div (Fin a) y = Fin 0"
| "js_div x (Fin b) = (if b \<ge> 0 then x else js_neg x)"
| "js_div x y = NaN"

fun js_sqrt :: "jsnum \<Rightarrow> jsnum" where
  "js_sqrt (Fin a) = (if a < 0 then NaN else Fin (sqrt a))"
| "js_sqrt PosInf = PosInf"
| "js_sqrt x = NaN"

fun js_lt :: "jsnum \<Rightarrow> jsnum \<Rightarrow> bool" where
  "js_lt (Fin a) (Fin b) = (a < b)"
| "js_lt NaN y = False"
| "js_lt x NaN = False"
| "js_lt x NegInf = False"
| "js_lt PosInf y = False"
| "js_lt x y = True"

definition js_gt :: "jsnum \<Rightarrow> jsnum \<Rightarrow> bool" where
  "js_gt x y = js_lt y x"

text \<open>Strict equality \<^verbatim>\<open>===\<close> on numbers: \<^verbatim>\<open>NaN\<close> equals nothing.\<close>

definition js_eq :: "jsnum \<Rightarrow> jsnum \<Rightarrow> bool" where
  "js_eq x y = (x \<noteq> NaN \<and> x = y)"

definition js_le :: "jsnum \<Rightarrow> jsnum \<Rightarrow> bool" where
  "js_le x y = (js_lt x y \<or> js_eq x y)"

definition js_ge :: "jsnum \<Rightarrow> jsnum \<Rightarrow> bool" where
  "js_ge x y = js_le y x"

text \<open>A number is falsy when it is zero or \<^verbatim>\<open>NaN\<close>.\<close>

definition truthy :: "jsnum \<Rightarrow> bool" where
  "truthy x = (x \<noteq> Fin 0 \<and> x \<noteq> NaN)"

text \<open>\<^verbatim>\<open>Math.max(...xs)\<close> and \<^verbatim>\<open>Math.min(...xs)\<close>.\<close>

definition max2 :: "jsnum \<Rightarrow> jsnum \<Rightarrow> jsnum" where
  "max2 x y = (if x = NaN \<or> y = NaN then NaN else if js_lt x y then y else x)"

definition min2 :: "jsnum \<Rightarrow> jsnum \<Rightarrow> jsnum" where
  "min2 x y = (if x = NaN \<or> y = NaN then NaN else if js_lt y x then y else x)"

definition Math_max :: "jsnum list \<Rightarrow> jsnum" where
  "Math_max xs = foldl max2 NegInf xs"

definition Math_min :: "jsnum list \<Rightarrow> jsnum" where
  "Math_min xs = foldl min2 PosInf xs"

text \<open>\<^verbatim>\<open>xs.reduce((a, b) => a + b, 0)\<close> and \<^verbatim>\<open>xs.length\<close> as a number.\<close>

definition sumOf :: "jsnum list \<Rightarrow> jsnum" where
  "sumOf xs = foldl js_add (Fin 0) xs"

definition lengthOf :: "'a list \<Rightarrow> jsnum" where
  "lengthOf xs = Fin (real (length xs))"

text \<open>The filter \<^verbatim>\<open>r => isFinite(r) && r > 0\<close> of the rate series.\<close>

definition validRate :: "jsnum \<Rightarrow> bool" where
  "validRate r = (isFinite r \<and> js_gt r (Fin 0))"

subsection \<open>Fetching rates\<close>

text \<open>
  \<^verbatim>\<open>Record<string, number>\<close> is an association list in the order of the object's
  keys; an assignment \<^verbatim>\<open>o[k] = v\<close> is \<open>AList.update\<close> and a read \<^verbatim>\<open>o[k]\<close> is
  \<open>map_of\<close>, \<open>None\<close> standing for \<^verbatim>\<open>undefined\<close>.
\<close>

record ExchangeRate =
  base :: string
  date :: string
  rates :: "(string \<times> jsnum) list"

datatype http_error = HttpErrorResponse

text \<open>
  What the service reads from outside: the clock at the cache lookup and at the
  arrival of the response, today's date (\<^verbatim>\<open>new Date().toISOString().split('T')[0]\<close>),
  whether \<^verbatim>\<open>new Date(s)\<close> is a valid date for a string of the shape
  \<^verbatim>\<open>dddd-dd-dd\<close>, and the HTTP client: \<open>httpGet url params k\<close> is the outcome of
  the \<open>k\<close>-th subscription to \<^verbatim>\<open>http.get<ExchangeRate>(url, {params})\<close>, a body of
  the declared type or an error.
\<close>

record world =
  clockLookup :: int
  clockStore :: int
  today :: string
  parsesAsDate :: "string \<Rightarrow> bool"
  httpGet :: "string \<Rightarrow> (string \<times> string) list \<Rightarrow> nat \<Rightarrow> http_error + ExchangeRate"

definition baseUrl :: string where
  "baseUrl = ''https://api.frankfurter.dev/v1''"

definition isDigit :: "char \<Rightarrow> bool" where
  "isDigit c = (CHR ''0'' \<le> c \<and> c \<le> CHR ''9'')"

text \<open>The regular expression \<^verbatim>\<open>/^\d{4}-\d{2}-\d{2}$/\<close>.\<close>

definition isIsoDate :: "string \<Rightarrow> bool" where
  "isIsoDate s =
     (length s = 10 \<and> list_all isDigit (take 4 s) \<and> s ! 4 = CHR ''-'' \<and>
      list_all isDigit (take 2 (drop 5 s)) \<and> s ! 7 = CHR ''-'' \<and>
      list_all isDigit (drop 8 s))"

definition sanitizeDate :: "world \<Rightarrow> string \<Rightarrow> string" where
  "sanitizeDate w d =
     (if d = [] then today w
      else (let sanitized = slice (filter (\<lambda>c. isDigit c \<or> c = CHR ''-'') (trim d)) 0 10
            in if \<not> isIsoDate sanitized then today w
               else if \<not> parsesAsDate w sanitized then today w
               else sanitized))"

text \<open>
  \<^verbatim>\<open>sanitizeAmount(amount: unknown)\<close>: a number, a string (read by \<^verbatim>\<open>parseFloat\<close>,
  which is taken as a parameter), or any other value.
\<close>

datatype jsval = VNum jsnum | VStr string | VOther

definition sanitizeAmount :: "(string \<Rightarrow> jsnum) \<Rightarrow> jsval \<Rightarrow> jsnum" where
  "sanitizeAmount parseFloat amount =
     (case amount of
        VNum a \<Rightarrow> if isFinite a \<and> js_ge a (Fin 0) then a else Fin 0
      | VStr t \<Rightarrow>
          (let parsed = parseFloat t
           in if isFinite parsed \<and> js_ge parsed (Fin 0) then parsed else Fin 0)
      | VOther \<Rightarrow> Fin 0)"

text \<open>\<^verbatim>\<open>s || t\<close> on strings: the empty string is falsy.\<close>

definition orElse :: "string \<Rightarrow> string \<Rightarrow> string" where
  "orElse s t = (if s \<noteq> [] then s else t)"

definition createEmptyExchangeRate :: "world \<Rightarrow> string \<Rightarrow> ExchangeRate" where
  "createEmptyExchangeRate w b =
     \<lparr>base = orElse (sanitizeCurrencyCode b) ''EUR'', date = today w, rates = []\<rparr>"

definition getFallbackExchangeRate :: "world \<Rightarrow> string \<Rightarrow> http_error + ExchangeRate" where
  "getFallbackExchangeRate w b = Inr (createEmptyExchangeRate w b)"

text \<open>The body of the loop over \<^verbatim>\<open>Object.entries(rate.rates)\<close>.\<close>

definition keepRate :: "(string \<times> jsnum) list \<Rightarrow> string \<times> jsnum \<Rightarrow> (string \<times> jsnum) list" where
  "keepRate sanitizedRates kv =
     (let sanitizedKey = sanitizeCurrencyCode (fst kv); numValue = snd kv
      in if sanitizedKey \<noteq> [] \<and> isFinite numValue \<and> js_gt numValue (Fin 0)
         then AList.update sanitizedKey numValue sanitizedRates
         else sanitizedRates)"

text \<open>
  \<^verbatim>\<open>validateExchangeRate\<close> on a body of the declared type: an object is truthy, so
  of the shape tests only the one on an empty \<^verbatim>\<open>base\<close> can fail.
\<close>

definition validateExchangeRate :: "world \<Rightarrow> ExchangeRate \<Rightarrow> string \<Rightarrow> ExchangeRate" where
  "validateExchangeRate w rate b =
     (if base rate = [] then createEmptyExchangeRate w b
      else \<lparr>base = orElse (sanitizeCurrencyCode (base rate)) b,
            date = sanitizeDate w (date rate),
            rates = foldl keepRate [] (rates rate)\<rparr>)"

definition buildParams :: "string \<Rightarrow> string list \<Rightarrow> (string \<times> string) list" where
  "buildParams b symbols =
     (let params = [(''base'', b)]
      in if length symbols > 0 then AList.update ''symbols'' (join '','' symbols) params
         else params)"

text \<open>
  \<^verbatim>\<open>retry(count)\<close>: on an error the source is subscribed to again, at most
  \<open>count\<close> times; the error of the last subscription passes through.
\<close>

fun retry :: "nat \<Rightarrow> (nat \<Rightarrow> 'e + 'a) \<Rightarrow> nat \<Rightarrow> 'e + 'a" where
  "retry 0 source k = source k"
| "retry (Suc n) source k =
     (case source k of Inl e \<Rightarrow> retry n source (Suc k) | Inr v \<Rightarrow> Inr v)"

text \<open>The operators \<^verbatim>\<open>map\<close> and \<^verbatim>\<open>catchError\<close> on a stream of one value or an error.\<close>

definition rxMap :: "('a \<Rightarrow> 'b) \<Rightarrow> 'e + 'a \<Rightarrow> 'e + 'b" where
  "rxMap f x = (case x of Inl e \<Rightarrow> Inl e | Inr v \<Rightarrow> Inr (f v))"

definition catchError :: "('e \<Rightarrow> 'e + 'a) \<Rightarrow> 'e + 'a \<Rightarrow> 'e + 'a" where
  "catchError h x = (case x of Inl e \<Rightarrow> h e | Inr v \<Rightarrow> Inr v)"

text \<open>
  \<^verbatim>\<open>getLatestRates\<close>, subscribed to once: the value or error it delivers, and the
  cache afterwards. A missing \<open>base\<close> takes the default \<^verbatim>\<open>'EUR'\<close>. The cache holds
  the rate objects of this operation; \<^verbatim>\<open>shareReplay\<close> changes nothing for one
  subscriber.
\<close>

definition getLatestRates ::
  "world \<Rightarrow> string option \<Rightarrow> string list option \<Rightarrow> ExchangeRate cache \<Rightarrow>
   (http_error + ExchangeRate) \<times> ExchangeRate cache" where
  "getLatestRates w b symbols cache =
     (let sanitizedBase = sanitizeCurrencyCode (case b of None \<Rightarrow> ''EUR'' | Some c \<Rightarrow> c);
          sanitizedSymbols = sanitizeCurrencyArray symbols;
          cacheKey = buildCacheKey [Str ''latest'', Str sanitizedBase, Arr sanitizedSymbols];
          (cached, cache1) = getCached (clockLookup w) cacheKey cache
      in case cached of
           Some c \<Rightarrow> (Inr c, cache1)
         | None \<Rightarrow>
            (let params = buildParams sanitizedBase sanitizedSymbols;
                 fetched = retry retryAttempts (httpGet w (baseUrl @ ''/latest'') params) 0;
                 validated = rxMap (\<lambda>d. validateExchangeRate w d sanitizedBase) fetched;
                 cache2 = (case validated of
                             Inl e \<Rightarrow> cache1
                           | Inr d \<Rightarrow> setCache (clockStore w) cacheKey d cache1)
             in (catchError (\<lambda>e. getFallbackExchangeRate w sanitizedBase) validated, cache2)))"

text \<open>The callback of \<^verbatim>\<open>map\<close> in \<^verbatim>\<open>convertCurrency\<close>.\<close>

definition convertWith :: "jsnum \<Rightarrow> string \<Rightarrow> ExchangeRate \<Rightarrow> jsnum" where
  "convertWith sanitizedAmount sanitizedTo d =
     (case map_of (rates d) sanitizedTo of
        None \<Rightarrow> Fin 0
      | Some rate \<Rightarrow>
          if \<not> truthy rate \<or> \<not> isFinite rate \<or> js_le rate (Fin 0) then Fin 0
          else (let result = js_mul sanitizedAmount rate
                in if isFinite result then result else Fin 0))"

definition convertCurrency ::
  "world \<Rightarrow> (string \<Rightarrow> jsnum) \<Rightarrow> string \<Rightarrow> string \<Rightarrow> jsnum \<Rightarrow> ExchangeRate cache \<Rightarrow>
   (http_error + jsnum) \<times> ExchangeRate cache" where
  "convertCurrency w parseFloat from to amount cache =
     (let sanitizedFrom = sanitizeCurrencyCode from;
          sanitizedTo = sanitizeCurrencyCode to;
          sanitizedAmount = sanitizeAmount parseFloat (VNum amount)
      in if js_le sanitizedAmount (Fin 0) then (Inr (Fin 0), cache)
         else (let (latest, cache1) = getLatestRates w (Some sanitizedFrom) (Some [sanitizedTo]) cache
               in (catchError (\<lambda>e. Inr (Fin 0))
                     (rxMap (convertWith sanitizedAmount sanitizedTo) latest), cache1)))"

subsection \<open>Sample surroundings\<close>

text \<open>A world whose requests all fail, and one that answers the third subscription.\<close>

definition offlineWorld :: world where
  "offlineWorld =
     \<lparr>clockLookup = 0, clockStore = 5, today = ''2024-12-26'', parsesAsDate = (\<lambda>s. True),
      httpGet = (\<lambda>url params k. Inl HttpErrorResponse)\<rparr>"

definition slowWorld :: world where
  "slowWorld =
     \<lparr>clockLookup = 0, clockStore = 5, today = ''2024-12-26'', parsesAsDate = (\<lambda>s. True),
      httpGet = (\<lambda>url params k.
         if k < 2 then Inl HttpErrorResponse
         else Inr \<lparr>base = ''usd'', date = ''2024-12-25'',
                   rates = [(''GBP'', Fin (4 / 5)), (''JPY'', NaN)]\<rparr>)\<rparr>"

subsection \<open>Analytics card\<close>

text \<open>
  \<^verbatim>\<open>calculateVolatility\<close> and \<^verbatim>\<open>determineTrend\<close> write their result to a signal;
  the model returns the value written (\<open>None\<close> for \<^verbatim>\<open>null\<close>). The argument
  \<^verbatim>\<open>rates\<close> is called \<open>series\<close>.
\<close>

datatype trend = Up | Down | Neutral

text \<open>The callback of the variance's \<^verbatim>\<open>reduce\<close>.\<close>

definition squareStep :: "jsnum \<Rightarrow> jsnum \<Rightarrow> jsnum \<Rightarrow> jsnum" where
  "squareStep mean acc rate = (let diff = js_sub rate mean in js_add acc (js_mul diff diff))"

definition calculateVolatility :: "jsnum list \<Rightarrow> jsnum option" where
  "calculateVolatility series =
     (if length series < 2 then None
      else (let validRates = filter validRate series
            in if length validRates < 2 then None
               else (let sum = sumOf validRates;
                         mean = js_div sum (lengthOf validRates)
                     in if \<not> isFinite mean \<or> js_eq mean (Fin 0) then None
                        else (let variance = js_div (foldl (squareStep mean) (Fin 0) validRates)
                                                    (lengthOf validRates);
                                  stdDev = js_sqrt variance
                              in if \<not> isFinite stdDev then None
                                 else (let volatilityPercent = js_mul (js_div stdDev mean) (Fin 100)
                                       in if isFinite volatilityPercent
                                          then Some volatilityPercent else None)))))"

definition determineTrend :: "jsnum list \<Rightarrow> trend" where
  "determineTrend series =
     (if length series < 2 then Neutral
      else (let validRates = filter validRate series
            in if length validRates < 2 then Neutral
               else (let midPoint = int (length validRates div 2);
                         firstHalf = slice validRates 0 midPoint;
                         secondHalf = sliceFrom validRates midPoint;
                         firstSum = sumOf firstHalf;
                         secondSum = sumOf secondHalf;
                         firstAvg = js_div firstSum (lengthOf firstHalf);
                         secondAvg = js_div secondSum (lengthOf secondHalf)
                     in if \<not> isFinite firstAvg \<or> \<not> isFinite secondAvg \<or> js_eq firstAvg (Fin 0)
                        then Neutral
                        else (let change = js_mul (js_div (js_sub secondAvg firstAvg) firstAvg)
                                                  (Fin 100)
                              in if \<not> isFinite change then Neutral
                                 else if js_gt change (Fin (1 / 10)) then Up
                                 else if js_lt change (Fin (- (1 / 10))) then Down
                                 else Neutral))))"

subsection \<open>Chart\<close>

record HistoricalRate =
  base :: string
  start_date :: string
  end_date :: string
  rates :: "(string \<times> (string \<times> jsnum) list) list"

record PerformanceMetrics =
  high :: jsnum
  low :: jsnum
  average :: jsnum
  change :: jsnum
  changePercent :: jsnum
  volatility :: jsnum
  trend :: trend

text \<open>
  The rate series of \<^verbatim>\<open>calculateMetrics\<close>: the selected currency's rate on each
  date, in the order of the sorted date keys, where it is a finite positive number.
\<close>

definition rateOn :: "HistoricalRate \<Rightarrow> string \<Rightarrow> string \<Rightarrow> jsnum option" where
  "rateOn d currency day =
     (case map_of (rates d) day of
        None \<Rightarrow> None
      | Some dayRates \<Rightarrow>
          (case map_of dayRates currency of
             None \<Rightarrow> None
           | Some rate \<Rightarrow> if isFinite rate \<and> js_gt rate (Fin 0) then Some rate else None))"

definition chartRates :: "HistoricalRate \<Rightarrow> string \<Rightarrow> jsnum list" where
  "chartRates d currency =
     (let dates = sort (map fst (rates d))
      in List.map_filter (rateOn d currency) dates)"

text \<open>
  \<^verbatim>\<open>calculateMetrics\<close> writes \<^verbatim>\<open>null\<close> or the metrics to a signal; the model returns
  the value written. The selected currency is a parameter.
\<close>

definition calculateMetrics :: "HistoricalRate \<Rightarrow> string \<Rightarrow> PerformanceMetrics option" where
  "calculateMetrics d currency =
     (let rates = chartRates d currency
      in if length rates = 0 then None
         else (let high = Math_max rates;
                   low = Math_min rates;
                   sum = sumOf rates;
                   average = js_div sum (lengthOf rates);
                   firstRate = rates ! 0;
                   lastRate = rates ! (length rates - 1);
                   change = js_sub lastRate firstRate;
                   changePercent = (if \<not> js_eq firstRate (Fin 0)
                                    then js_mul (js_div change firstRate) (Fin 100) else Fin 0);
                   variance = js_div (foldl (squareStep average) (Fin 0) rates) (lengthOf rates);
                   volatility = (if \<not> js_eq average (Fin 0)
                                 then js_mul (js_div (js_sqrt variance) average) (Fin 100)
                                 else Fin 0);
                   midPoint = int (length rates div 2);
                   firstHalf = slice rates 0 midPoint;
                   secondHalf = sliceFrom rates midPoint;
                   firstSum = sumOf firstHalf;
                   secondSum = sumOf secondHalf;
                   firstAvg = js_div firstSum (lengthOf firstHalf);
                   secondAvg = js_div secondSum (lengthOf secondHalf);
                   trend = (if js_gt secondAvg (js_mul firstAvg (Fin (101 / 100))) then Up
                            else if js_lt secondAvg (js_mul firstAvg (Fin (99 / 100))) then Down
                            else Neutral)
               in Some \<lparr>high = high, low = low, average = average, change = change,
                        changePercent = changePercent, volatility = volatility,
                        trend = trend\<rparr>))"

text \<open>The filter \<^verbatim>\<open>v => v !== null && isFinite(v)\<close> of the moving averages.\<close>

fun finiteValues :: "jsnum option list \<Rightarrow> jsnum list" where
  "finiteValues [] = []"
| "finiteValues (None # vs) = finiteValues vs"
| "finiteValues (Some x # vs) = (if isFinite x then x # finiteValues vs else finiteValues vs)"

text \<open>
  \<^verbatim>\<open>calculateMA\<close>: the period is a whole number, as the component's period signals
  are (20 and 12). \<open>maValue\<close> is the value that the iteration for the index \<open>i\<close>
  pushes; the loop runs over \<open>i\<close> and appends to \<open>result\<close>.
\<close>

definition maValue :: "jsnum option list \<Rightarrow> int \<Rightarrow> nat \<Rightarrow> jsnum option" where
  "maValue ds validPeriod i =
     (if int i < validPeriod - 1 then None
      else (let window = finiteValues (slice ds (int i - validPeriod + 1) (int i + 1))
            in if length window > 0
               then (let sum = sumOf window in Some (js_div sum (lengthOf window)))
               else None))"

function maLoop :: "jsnum option list \<Rightarrow> int \<Rightarrow> nat \<Rightarrow> jsnum option list \<Rightarrow> jsnum option list" where
  "maLoop ds validPeriod i result =
     (if i < length ds then maLoop ds validPeriod (Suc i) (result @ [maValue ds validPeriod i])
      else result)"
  by pat_completeness auto
termination
  by (relation "measure (\<lambda>(ds, validPeriod, i, result). length ds - i)") auto

declare maLoop.simps [simp del]

definition calculateMA :: "jsnum option list \<Rightarrow> int \<Rightarrow> jsnum option list" where
  "calculateMA ds period =
     (let validPeriod = max 2 (min 100 period)
      in maLoop ds validPeriod 0 [])"

text \<open>
  \<^verbatim>\<open>calculateEMA\<close>: the loop carries the index, the running \<^verbatim>\<open>ema\<close> (\<open>None\<close> for
  \<^verbatim>\<open>null\<close>) and the result.
\<close>

function emaLoop ::
  "jsnum option list \<Rightarrow> int \<Rightarrow> jsnum \<Rightarrow> nat \<Rightarrow> jsnum option \<Rightarrow> jsnum option list \<Rightarrow>
   jsnum option list" where
  "emaLoop ds validPeriod multiplier i ema result =
     (if i < length ds then
        (case ds ! i of
           None \<Rightarrow> emaLoop ds validPeriod multiplier (Suc i) ema (result @ [None])
         | Some x \<Rightarrow>
             if \<not> isFinite x
             then emaLoop ds validPeriod multiplier (Suc i) ema (result @ [None])
             else (case ema of
                     None \<Rightarrow>
                       (let firstValues = finiteValues (slice ds 0 (min validPeriod (int i + 1)));
                            ema1 = (if length firstValues > 0
                                    then Some (js_div (sumOf firstValues) (lengthOf firstValues))
                                    else None)
                        in emaLoop ds validPeriod multiplier (Suc i) ema1 (result @ [ema1]))
                   | Some e \<Rightarrow>
                       (let ema1 = Some (js_add (js_mul (js_sub x e) multiplier) e)
                        in emaLoop ds validPeriod multiplier (Suc i) ema1 (result @ [ema1]))))
      else result)"
  by pat_completeness auto
termination
  by (relation "measure (\<lambda>(ds, validPeriod, multiplier, i, ema, result). length ds - i)") auto

declare emaLoop.simps [simp del]

definition calculateEMA :: "jsnum option list \<Rightarrow> int \<Rightarrow> jsnum option list" where
  "calculateEMA ds period =
     (let validPeriod = max 2 (min 100 period);
          multiplier = js_div (Fin 2) (Fin (real_of_int (validPeriod + 1)))
      in emaLoop ds validPeriod multiplier 0 None [])"

subsection \<open>Market overview\<close>

record CurrencyData =
  code :: string
  name :: string
  rate :: jsnum
  change24h :: "jsnum option"
  changePercent24h :: "jsnum option"

datatype strengthTrend = Strong | Moderate | Weak

record CurrencyStrength =
  code :: string
  name :: string
  strength :: jsnum
  trend :: strengthTrend
  change24h :: jsnum
  change7d :: jsnum
  change30d :: jsnum

definition STRENGTH_THRESHOLD_STRONG :: jsnum where
  "STRENGTH_THRESHOLD_STRONG = Fin 2"

definition STRENGTH_THRESHOLD_WEAK :: jsnum where
  "STRENGTH_THRESHOLD_WEAK = Fin (- 2)"

text \<open>
  The change against a historical rate, \<^verbatim>\<open>r && r > 0 && isFinite(r) ? ... : 0\<close>,
  where \<open>None\<close> is a code without an entry (\<^verbatim>\<open>undefined\<close>).
\<close>

definition changeAgainst :: "jsnum \<Rightarrow> jsnum option \<Rightarrow> jsnum" where
  "changeAgainst currentRate past =
     (case past of
        None \<Rightarrow> Fin 0
      | Some r \<Rightarrow>
          if truthy r \<and> js_gt r (Fin 0) \<and> isFinite r
          then js_mul (js_div (js_sub currentRate r) r) (Fin 100)
          else Fin 0)"

text \<open>
  The loop of \<^verbatim>\<open>calculateStrengths\<close> over the currencies, appending to
  \<open>results\<close>; the signals \<^verbatim>\<open>currencies\<close>, \<^verbatim>\<open>historical7d\<close> and \<^verbatim>\<open>historical30d\<close>
  are parameters.
\<close>

fun strengthsLoop ::
  "(string \<times> jsnum) list \<Rightarrow> (string \<times> jsnum) list \<Rightarrow> CurrencyData list \<Rightarrow>
   CurrencyStrength list \<Rightarrow> CurrencyStrength list" where
  "strengthsLoop historical7d historical30d [] results = results"
| "strengthsLoop historical7d historical30d (currency # rest) results =
     (let currentRate = rate currency
      in if \<not> isFinite currentRate \<or> js_le currentRate (Fin 0)
         then strengthsLoop historical7d historical30d rest results
         else (let rate7d = map_of historical7d (CurrencyData.code currency);
                   rate30d = map_of historical30d (CurrencyData.code currency);
                   change7d = changeAgainst currentRate rate7d;
                   change30d = changeAgainst currentRate rate30d;
                   change24h = (case changePercent24h currency of
                                  None \<Rightarrow> Fin 0
                                | Some p \<Rightarrow> if truthy p \<and> isFinite p then p else Fin 0);
                   strength = js_add (js_add (js_mul change24h (Fin (1 / 2)))
                                             (js_mul change7d (Fin (3 / 10))))
                                     (js_mul change30d (Fin (2 / 10)));
                   trend = (if js_gt strength STRENGTH_THRESHOLD_STRONG then Strong
                            else if js_lt strength STRENGTH_THRESHOLD_WEAK then Weak
                            else Moderate)
               in if isFinite strength
                  then strengthsLoop historical7d historical30d rest
                         (results @
                          [\<lparr>code = CurrencyData.code currency,
                            name = CurrencyData.name currency,
                            strength = strength,
                            trend = trend,
                            change24h = (if isFinite change24h then change24h else Fin 0),
                            change7d = (if isFinite change7d then change7d else Fin 0),
                            change30d = (if isFinite change30d then change30d else Fin 0)\<rparr>])
                  else strengthsLoop historical7d historical30d rest results))"

text \<open>
  \<^verbatim>\<open>results.sort((a, b) => b.strength - a.strength)\<close>: a stable sort by falling
  strength; every strength in \<open>results\<close> is finite.
\<close>

definition calculateStrengths ::
  "CurrencyData list \<Rightarrow> (string \<times> jsnum) list \<Rightarrow> (string \<times> jsnum) list \<Rightarrow>
   CurrencyStrength list" where
  "calculateStrengths currencies historical7d historical30d =
     (if length currencies = 0 then []
      else (let results = strengthsLoop historical7d historical30d currencies []
            in sort_key (\<lambda>r. - finVal (strength r)) results))"

subsection \<open>The specification's formulas\<close>

text \<open>
  The definitions of this subsection are not taken from the code: they write the
  specification's sentences over the real numbers, to be compared with the code.
\<close>

text \<open>The valid subset of a series: its finite, positive values.\<close>

fun validSubset :: "jsnum list \<Rightarrow> real list" where
  "validSubset [] = []"
| "validSubset (Fin a # rs) = (if 0 < a then a # validSubset rs else validSubset rs)"
| "validSubset (r # rs) = validSubset rs"

definition mean :: "real list \<Rightarrow> real" where
  "mean xs = sum_list xs / real (length xs)"

definition populationStdDev :: "real list \<Rightarrow> real" where
  "populationStdDev xs = sqrt ((\<Sum>x\<leftarrow>xs. (x - mean xs)\<^sup>2) / real (length xs))"

text \<open>
  Volatility: population standard deviation over mean, as a percentage; absent
  with fewer than two valid points or a zero mean.
\<close>

definition volatilitySpec :: "real list \<Rightarrow> real option" where
  "volatilitySpec vs =
     (if length vs < 2 \<or> mean vs = 0 then None
      else Some (populationStdDev vs / mean vs * 100))"

text \<open>
  Trend: the means of the two halves, split at \<open>length div 2\<close>, compared with a
  margin of one percent; neutral with fewer than two valid points.
\<close>

definition trendSpec :: "real list \<Rightarrow> trend" where
  "trendSpec vs =
     (if length vs < 2 then Neutral
      else (let mid = length vs div 2; first = mean (take mid vs); second = mean (drop mid vs)
            in if second > first * (101 / 100) then Up
               else if second < first * (99 / 100) then Down
               else Neutral))"

text \<open>
  The trend of the analytics card: the change of the second half's mean against
  the first half's, in percent, compared with a tenth of a percent.
\<close>

definition trendByChange :: "real list \<Rightarrow> trend" where
  "trendByChange vs =
     (if length vs < 2 then Neutral
      else (let mid = length vs div 2; first = mean (take mid vs); second = mean (drop mid vs);
                change = (second - first) / first * 100
            in if change > 1 / 10 then Up
               else if change < - (1 / 10) then Down
               else Neutral))"

text \<open>The period clamped to \<open>[2, 100]\<close>.\<close>

definition clampPeriod :: "int \<Rightarrow> nat" where
  "clampPeriod period = nat (max 2 (min 100 period))"

text \<open>The present, finite values of a window, and their mean (absent when there are none).\<close>

fun presentValues :: "jsnum option list \<Rightarrow> real list" where
  "presentValues [] = []"
| "presentValues (Some (Fin a) # vs) = a # presentValues vs"
| "presentValues (v # vs) = presentValues vs"

definition meanOfValid :: "jsnum option list \<Rightarrow> real option" where
  "meanOfValid window =
     (let vs = presentValues window
      in if vs = [] then None else Some (sum_list vs / real (length vs)))"

text \<open>The trailing window of \<open>p\<close> elements that ends at the index \<open>i\<close>.\<close>

definition trailingWindow :: "'a list \<Rightarrow> nat \<Rightarrow> nat \<Rightarrow> 'a list" where
  "trailingWindow ds p i = map (\<lambda>j. ds ! j) [Suc i - p..<Suc i]"

definition movingAverageSpec :: "jsnum option list \<Rightarrow> int \<Rightarrow> real option list" where
  "movingAverageSpec ds period =
     map (\<lambda>i. if i < clampPeriod period - 1 then None
              else meanOfValid (trailingWindow ds (clampPeriod period) i))
         [0..<length ds]"

text \<open>
  The state of the exponential moving average after the first \<open>k\<close> inputs: an
  absent or non-finite input leaves it as it is; a valid input seeds it, when
  there is no state yet, with the mean of the valid values among the first
  \<open>min p k\<close> inputs (no state when there are none), and otherwise moves it by
  \<open>(current - previous) * factor\<close>.
\<close>

fun emaState :: "jsnum option list \<Rightarrow> nat \<Rightarrow> real \<Rightarrow> nat \<Rightarrow> real option" where
  "emaState ds p factor 0 = None"
| "emaState ds p factor (Suc k) =
     (case ds ! k of
        Some (Fin x) \<Rightarrow>
          (case emaState ds p factor k of
             None \<Rightarrow> meanOfValid (take (min p (Suc k)) ds)
           | Some prevEma \<Rightarrow> Some ((x - prevEma) * factor + prevEma))
      | _ \<Rightarrow> emaState ds p factor k)"

text \<open>
  The output at the index \<open>i\<close>: absent for an absent or non-finite input,
  otherwise the state after that input.
\<close>

definition emaOutput :: "jsnum option list \<Rightarrow> nat \<Rightarrow> real \<Rightarrow> nat \<Rightarrow> real option" where
  "emaOutput ds p factor i =
     (case ds ! i of
        Some (Fin x) \<Rightarrow> emaState ds p factor (Suc i)
      | _ \<Rightarrow> None)"

definition exponentialMovingAverageSpec :: "jsnum option list \<Rightarrow> int \<Rightarrow> real option list" where
  "exponentialMovingAverageSpec ds period =
     (let p = clampPeriod period; factor = 2 / (real p + 1)
      in map (emaOutput ds p factor) [0..<length ds])"

text \<open>The strength score, its classification and the entry of one currency.\<close>

definition strengthScore :: "real \<Rightarrow> real \<Rightarrow> real \<Rightarrow> real" where
  "strengthScore c24 c7 c30 = 0.5 * c24 + 0.3 * c7 + 0.2 * c30"

definition classifyStrength :: "real \<Rightarrow> strengthTrend" where
  "classifyStrength s = (if s > 2 then Strong else if s < - 2 then Weak else Moderate)"

text \<open>
  A change term, 0 when its source is unavailable or not a finite positive rate,
  and the 24-hour term, 0 when it is unavailable or not finite.
\<close>

definition changeOrZero :: "real \<Rightarrow> jsnum option \<Rightarrow> real" where
  "changeOrZero current past =
     (case past of
        Some (Fin r) \<Rightarrow> if 0 < r then (current - r) / r * 100 else 0
      | _ \<Rightarrow> 0)"

definition percentOrZero :: "jsnum option \<Rightarrow> real" where
  "percentOrZero p = (case p of Some (Fin x) \<Rightarrow> x | _ \<Rightarrow> 0)"

definition hasValidRate :: "CurrencyData \<Rightarrow> bool" where
  "hasValidRate c = (case rate c of Fin r \<Rightarrow> 0 < r | _ \<Rightarrow> False)"

definition strengthEntry ::
  "(string \<times> jsnum) list \<Rightarrow> (string \<times> jsnum) list \<Rightarrow> CurrencyData \<Rightarrow> CurrencyStrength" where
  "strengthEntry historical7d historical30d c =
     (let c24 = percentOrZero (changePercent24h c);
          c7 = changeOrZero (finVal (rate c)) (map_of historical7d (CurrencyData.code c));
          c30 = changeOrZero (finVal (rate c)) (map_of historical30d (CurrencyData.code c));
          score = strengthScore c24 c7 c30
      in \<lparr>code = CurrencyData.code c, name = CurrencyData.name c, strength = Fin score,
          trend = classifyStrength score, change24h = Fin c24, change7d = Fin c7,
          change30d = Fin c30\<rparr>)"

subsection \<open>Sample series\<close>

text \<open>A chart payload with one dated rate, and one with six, its dates out of order.\<close>

definition singlePoint :: HistoricalRate where
  "singlePoint =
     \<lparr>base = ''EUR'', start_date = ''2024-01-02'', end_date = ''2024-01-02'',
      rates = [(''2024-01-02'', [(''USD'', Fin 10)])]\<rparr>"

definition risingWeek :: HistoricalRate where
  "risingWeek =
     \<lparr>base = ''EUR'', start_date = ''2024-01-01'', end_date = ''2024-01-06'',
      rates = [(''2024-01-04'', [(''USD'', Fin 2)]), (''2024-01-01'', [(''USD'', Fin 1)]),
               (''2024-01-02'', [(''USD'', Fin 1), (''GBP'', Fin 7)]),
               (''2024-01-03'', [(''USD'', Fin 1)]), (''2024-01-06'', [(''USD'', Fin 2)]),
               (''2024-01-05'', [(''USD'', Fin 2)])]\<rparr>"

text \<open>Three currencies, one of them without a valid current rate.\<close>

definition sampleCurrencies :: "CurrencyData list" where
  "sampleCurrencies =
     [\<lparr>CurrencyData.code = ''GBP'', CurrencyData.name = ''Pound'', rate = Fin (9 / 10),
       CurrencyData.change24h = None, changePercent24h = None\<rparr>,
      \<lparr>CurrencyData.code = ''USD'', CurrencyData.name = ''Dollar'', rate = Fin (11 / 10),
       CurrencyData.change24h = Some (Fin (1 / 10)), changePercent24h = Some (Fin 10)\<rparr>,
      \<lparr>CurrencyData.code = ''JPY'', CurrencyData.name = ''Yen'', rate = NaN,
       CurrencyData.change24h = None, changePercent24h = Some (Fin 3)\<rparr>]"

section \<open>Properties\<close>

subsection \<open>Cache keys\<close>

lemma slice_take: "slice xs 0 (int n) = take n xs"
  by (simp add: slice_def Let_def min_def)

lemma slice_200: "slice xs 0 200 = take 200 xs"
  using slice_take[of xs 200] by simp

lemma set_foldl_setAdd: "set (foldl setAdd acc xs) = set acc \<union> set xs"
  by (induction xs arbitrary: acc) (auto simp: setAdd_def)

lemma distinct_foldl_setAdd: "distinct acc \<Longrightarrow> distinct (foldl setAdd acc xs)"
  by (induction xs arbitrary: acc) (auto simp: setAdd_def)

lemma sanitizeCurrencyCode_valid: "isCurrencyCode (sanitizeCurrencyCode c)"
  by (simp add: sanitizeCurrencyCode_def Let_def isCurrencyCode_def isAZ_def)

lemma sanitizeCurrencyCode_nonempty: "sanitizeCurrencyCode c \<noteq> []"
  using sanitizeCurrencyCode_valid[of c] by (auto simp: isCurrencyCode_def)

lemma sanitizeCurrencyArray_Some:
  "sanitizeCurrencyArray (Some cs) = arrayFromSet (map sanitizeCurrencyCode cs)"
  by (simp add: sanitizeCurrencyArray_def sanitizeCurrencyCode_valid)

lemma set_sanitizeCurrencyArray:
  "set (sanitizeCurrencyArray (Some cs)) = sanitizeCurrencyCode ` set cs"
  by (simp add: sanitizeCurrencyArray_Some arrayFromSet_def set_foldl_setAdd)

lemma distinct_sanitizeCurrencyArray: "distinct (sanitizeCurrencyArray codes)"
  by (cases codes) (simp_all add: sanitizeCurrencyArray_def arrayFromSet_def distinct_foldl_setAdd)

lemma join_nonempty: "xs \<noteq> [] \<Longrightarrow> \<forall>x\<in>set xs. x \<noteq> [] \<Longrightarrow> join sep xs \<noteq> []"
  by (induction sep xs rule: join.induct) auto

lemma buildCacheKey_parts:
  assumes "\<forall>p \<in> set parts. p \<noteq> []" "\<forall>x\<in>set syms. x \<noteq> []"
  shows "buildCacheKey (map Str parts @ [Arr syms]) =
         take 200 (join ''_'' (parts @ [if syms = [] then ''all'' else join '','' syms]))"
proof -
  have a: "partText (Arr syms) \<noteq> []"
    using assms(2) by (auto simp: partText_def join_nonempty)
  have "map partText (map Str parts) = parts"
    by (induction parts) (simp_all add: partText_def)
  then have "filter (\<lambda>p. length p > 0) (map partText (map Str parts @ [Arr syms])) =
             parts @ [partText (Arr syms)]"
    using assms(1) a by (simp add: filter_id_conv)
  then show ?thesis
    by (simp add: buildCacheKey_def Let_def slice_200 partText_def)
qed



lemma key_samples:
  "sanitizeCurrencyArray (Some [''usd'', ''GBP'', ''USD'']) = [''USD'', ''GBP'']"
  "sanitizeCurrencyArray (Some [''GBP'', ''USD'', ''usd'']) = [''GBP'', ''USD'']"
  by code_simp+


subsection \<open>Cache reads and writes\<close>

lemma map_of_delete_same: "map_of (AList.delete k al) k = None"
  by (simp add: AList.delete_eq map_of_eq_None_iff image_iff)

lemma length_delete_distinct:
  "distinct (map fst al) \<Longrightarrow> k \<in> fst ` set al \<Longrightarrow> Suc (length (AList.delete k al)) = length al"
  by (induction al) (auto simp: image_iff)

lemma length_update_new:
  "k \<notin> fst ` set al \<Longrightarrow> length (AList.update k v al) = Suc (length al)"
  by (induction al) auto

lemma getCached_absent: "map_of cache key = None \<Longrightarrow> getCached now key cache = (None, cache)"
  by (simp add: getCached_def)

text \<open>
  C3. For an entry stored under a key, \<^verbatim>\<open>getCached\<close> returns the stored value
  exactly when the entry's age is strictly below five minutes (300000 ms), and
  then leaves the cache as it is; when the entry has expired it returns nothing
  and deletes that entry, and only that entry, from the cache.
\<close>

theorem getCached_ttl:
  assumes "distinct (map fst cache)" and "map_of cache key = Some e"
  shows "(fst (getCached now key cache) = Some (data e) \<longleftrightarrow> now - timestamp e < 300000) \<and>
     (now - timestamp e < 300000 \<longrightarrow> snd (getCached now key cache) = cache) \<and>
     (\<not> now - timestamp e < 300000 \<longrightarrow>
        fst (getCached now key cache) = None \<and>
        map_of (snd (getCached now key cache)) key = None \<and>
        (\<forall>k. k \<noteq> key \<longrightarrow> map_of (snd (getCached now key cache)) k = map_of cache k) \<and>
        Suc (length (snd (getCached now key cache))) = length cache)"
proof -
  have "key \<in> fst ` set cache"
    using assms(2) by (metis map_of_eq_None_iff option.distinct(1))
  then have "Suc (length (AList.delete key cache)) = length cache"
    using assms(1) by (rule length_delete_distinct[rotated])
  then show ?thesis
    using assms(2)
    by (simp add: getCached_def cacheTimeout_def map_of_delete_same)
qed

theorem getCached_ttl_witness:
  "distinct (map fst [(''latest_EUR_all'', \<lparr>data = (7::nat), timestamp = 0\<rparr>)]) \<and>
   fst (getCached 299999 ''latest_EUR_all''
         [(''latest_EUR_all'', \<lparr>data = (7::nat), timestamp = 0\<rparr>)]) = Some 7 \<and>
   fst (getCached 300000 ''latest_EUR_all''
         [(''latest_EUR_all'', \<lparr>data = (7::nat), timestamp = 0\<rparr>)]) = None \<and>
   length (snd (getCached 300000 ''latest_EUR_all''
         [(''latest_EUR_all'', \<lparr>data = (7::nat), timestamp = 0\<rparr>)])) = 0"
  using getCached_ttl[of "[(''latest_EUR_all'', \<lparr>data = (7::nat), timestamp = 0\<rparr>)]"
      "''latest_EUR_all''" "\<lparr>data = (7::nat), timestamp = 0\<rparr>" 299999]
    getCached_ttl[of "[(''latest_EUR_all'', \<lparr>data = (7::nat), timestamp = 0\<rparr>)]"
      "''latest_EUR_all''" "\<lparr>data = (7::nat), timestamp = 0\<rparr>" 300000]
  by simp

lemma oldestScan_no_older:
  "\<forall>(k, e) \<in> set cache. oldestTimestamp \<le> timestamp e \<Longrightarrow>
   oldestScan cache oldestKey oldestTimestamp = (oldestKey, oldestTimestamp)"
  by (induction cache oldestKey oldestTimestamp rule: oldestScan.induct) auto

lemma evict_no_older:
  "\<forall>(k, e) \<in> set cache. now \<le> timestamp e \<Longrightarrow> evictOldestCacheEntry now cache = cache"
  by (simp add: evictOldestCacheEntry_def oldestScan_no_older)

text \<open>
  C2 (where the code departs from it). The search for the oldest entry starts from
  the current instant and compares strictly, so when no entry is older than the
  clock reading nothing is evicted: a cache of one hundred entries stamped 1000
  that receives a new key at the instant 1000 holds 101 entries afterwards.
\<close>

theorem setCache_same_instant_overflow:
  "length sameInstantCache = 100 \<and>
   length (setCache 1000 ''latest_EUR_all'' 0 sameInstantCache) = 101"
proof -
  have len: "length sameInstantCache = 100"
    by (simp add: sameInstantCache_def)
  have ts: "\<forall>(k, e) \<in> set sameInstantCache. 1000 \<le> timestamp e"
    by (auto simp: sameInstantCache_def)
  have new: "''latest_EUR_all'' \<notin> fst ` set sameInstantCache"
  proof
    assume "''latest_EUR_all'' \<in> fst ` set sameInstantCache"
    then obtain i where "''latest_EUR_all'' = replicate (Suc i) CHR ''k''"
      by (auto simp: sameInstantCache_def)
    then have "hd ''latest_EUR_all'' = CHR ''k''" by simp
    then show False by simp
  qed
  have "setCache 1000 ''latest_EUR_all'' 0 sameInstantCache =
        AList.update ''latest_EUR_all'' \<lparr>data = 0, timestamp = 1000\<rparr> sameInstantCache"
    using len evict_no_older[OF ts] by (simp add: setCache_def maxCacheSize_def)
  then show ?thesis
    using len new by (simp add: length_update_new)
qed

text \<open>
  When some entry is strictly older than the clock reading (and no key is empty),
  the eviction removes exactly one entry, one of smallest timestamp, and a cache
  within its capacity stays within it.
\<close>

lemma oldestScan_min:
  "oldestScan cache ok t = (ok', t') \<Longrightarrow>
     t' \<le> t \<and> (\<forall>(k, e) \<in> set cache. t' \<le> timestamp e) \<and>
     (if t' < t then \<exists>k e. ok' = Some k \<and> (k, e) \<in> set cache \<and> timestamp e = t'
      else ok' = ok)"
proof (induction cache ok t arbitrary: ok' t' rule: oldestScan.induct)
  case (1 oldestKey oldestTimestamp)
  then show ?case by simp
next
  case (2 key entry rest oldestKey oldestTimestamp)
  show ?case
  proof (cases "timestamp entry < oldestTimestamp")
    case True
    then have "oldestScan rest (Some key) (timestamp entry) = (ok', t')"
      using "2.prems" by simp
    from "2.IH"(1)[OF True this] True show ?thesis
      by (auto split: if_splits)
  next
    case False
    then have "oldestScan rest oldestKey oldestTimestamp = (ok', t')"
      using "2.prems" by simp
    from "2.IH"(2)[OF False this] False show ?thesis
      by (auto split: if_splits)
  qed
qed

lemma evict_removes_oldest:
  assumes "distinct (map fst cache)" and "[] \<notin> fst ` set cache"
    and "\<exists>(k, e) \<in> set cache. timestamp e < now"
  shows "\<exists>k e. (k, e) \<in> set cache \<and> (\<forall>(k', e') \<in> set cache. timestamp e \<le> timestamp e') \<and>
           evictOldestCacheEntry now cache = AList.delete k cache \<and>
           Suc (length (evictOldestCacheEntry now cache)) = length cache"
proof -
  obtain ok' t' where s: "oldestScan cache None now = (ok', t')" by (cases "oldestScan cache None now")
  note m = oldestScan_min[OF s]
  have "t' < now" using m assms(3) by fastforce
  then obtain k e where k: "ok' = Some k" "(k, e) \<in> set cache" "timestamp e = t'"
    using m by auto
  have ne: "k \<noteq> []" using k(2) assms(2) by force
  have ev: "evictOldestCacheEntry now cache = AList.delete k cache"
    using s k(1) ne by (simp add: evictOldestCacheEntry_def)
  have "k \<in> fst ` set cache" using k(2) by force
  then have "Suc (length (AList.delete k cache)) = length cache"
    using assms(1) by (rule length_delete_distinct[rotated])
  then show ?thesis using k m ev by auto
qed

lemma length_update_le: "length (AList.update k v al) \<le> Suc (length al)"
  by (induction al) auto

lemma setCache_bounded:
  assumes "distinct (map fst cache)" and "[] \<notin> fst ` set cache"
    and "\<exists>(k, e) \<in> set cache. timestamp e < now"
    and "length cache \<le> maxCacheSize"
  shows "length (setCache now key d cache) \<le> maxCacheSize"
proof (cases "length cache \<ge> maxCacheSize")
  case True
  obtain k e where "Suc (length (evictOldestCacheEntry now cache)) = length cache"
    using evict_removes_oldest[OF assms(1-3)] by blast
  then have "Suc (length (evictOldestCacheEntry now cache)) \<le> maxCacheSize"
    using assms(4) by simp
  then show ?thesis
    using True length_update_le[of key "\<lparr>data = d, timestamp = now\<rparr>" "evictOldestCacheEntry now cache"]
    by (simp add: setCache_def Let_def)
next
  case False
  then show ?thesis
    using length_update_le[of key "\<lparr>data = d, timestamp = now\<rparr>" cache]
    by (simp add: setCache_def Let_def)
qed

subsection \<open>Fetching and converting\<close>

lemma isAZ_code: "isAZ c \<longleftrightarrow> 65 \<le> (of_char c :: nat) \<and> (of_char c :: nat) \<le> 90"
  by (simp add: isAZ_def less_eq_char_def)

lemma isAZ_not_space: "isAZ c \<Longrightarrow> \<not> isWhiteSpace c"
  by (auto simp: isAZ_code isWhiteSpace_def)

lemma isAZ_upper: "isAZ c \<Longrightarrow> upperChar c = [c]"
  by (auto simp: isAZ_code upperChar_def less_eq_char_def)

lemma trim_AZ: "list_all isAZ s \<Longrightarrow> trim s = s"
proof (cases s rule: rev_cases)
  case Nil
  then show ?thesis by (simp add: trim_def)
next
  case (snoc ys y)
  assume a: "list_all isAZ s"
  show ?thesis
  proof (cases ys)
    case Nil
    with snoc a show ?thesis by (simp add: trim_def isAZ_not_space)
  next
    case (Cons z zs)
    with snoc a have "\<not> isWhiteSpace z" "\<not> isWhiteSpace y" by (simp_all add: isAZ_not_space)
    with snoc Cons show ?thesis by (simp add: trim_def)
  qed
qed

lemma toUpperCase_AZ: "list_all isAZ s \<Longrightarrow> toUpperCase s = s"
  by (induction s) (simp_all add: toUpperCase_def isAZ_upper)

lemma filter_AZ: "list_all isAZ s \<Longrightarrow> filter isAZ s = s"
  by (induction s) simp_all

lemma slice_0_3: "length s = 3 \<Longrightarrow> slice s 0 3 = s"
  by (simp add: slice_def)

lemma sanitizeCurrencyCode_fixed: "isCurrencyCode s \<Longrightarrow> sanitizeCurrencyCode s = s"
  by (auto simp: sanitizeCurrencyCode_def isCurrencyCode_def trim_AZ toUpperCase_AZ filter_AZ slice_0_3)

lemma sanitizeCurrencyCode_idem:
  "sanitizeCurrencyCode (sanitizeCurrencyCode c) = sanitizeCurrencyCode c"
  by (simp add: sanitizeCurrencyCode_fixed sanitizeCurrencyCode_valid)

lemma retry_all_fail:
  "\<forall>j \<le> n. \<exists>e. source (k + j) = Inl e \<Longrightarrow> \<exists>e. retry n source k = Inl e"
proof (induction n arbitrary: k)
  case 0
  then show ?case by simp
next
  case (Suc n)
  from Suc.prems obtain e where e: "source k = Inl e"
    by (metis add.right_neutral le0)
  have "\<forall>j \<le> n. \<exists>e. source (Suc k + j) = Inl e"
    using Suc.prems by (metis Suc_le_mono add_Suc_shift)
  from Suc.IH[OF this] show ?case using e by simp
qed

lemma getLatestRates_never_fails: "\<exists>r. fst (getLatestRates w b symbols cache) = Inr r"
  by (auto simp: getLatestRates_def Let_def catchError_def rxMap_def getFallbackExchangeRate_def
      split: prod.splits option.splits sum.splits)

lemma sanitize_samples:
  "sanitizeCurrencyCode ''usd'' = ''USD''"
  "sanitizeCurrencyCode ''gbp'' = ''GBP''"
  "sanitizeCurrencyCode ''jpy'' = ''JPY''"
  by code_simp+

text \<open>
  C9. When the cache has no fresh entry for the request and the fetch fails on the
  first subscription and on both retries (\<^verbatim>\<open>retry(2)\<close>), \<^verbatim>\<open>getLatestRates\<close> delivers a
  value, not an error: the rate object with no rates, today's date and the
  sanitized requested base (\<^verbatim>\<open>EUR\<close> when none is given); nothing is stored in the
  cache.
\<close>

theorem getLatestRates_fallback:
  assumes "sanitizedBase = sanitizeCurrencyCode (case b of None \<Rightarrow> ''EUR'' | Some c \<Rightarrow> c)"
    and "sanitizedSymbols = sanitizeCurrencyArray symbols"
    and "cacheKey = buildCacheKey [Str ''latest'', Str sanitizedBase, Arr sanitizedSymbols]"
    and miss: "fst (getCached (clockLookup w) cacheKey cache) = None"
    and fail: "\<forall>k \<le> 2. httpGet w (baseUrl @ ''/latest'')
                 (buildParams sanitizedBase sanitizedSymbols) k = Inl HttpErrorResponse"
  shows "getLatestRates w b symbols cache =
         (Inr \<lparr>ExchangeRate.base = sanitizedBase, date = today w, ExchangeRate.rates = []\<rparr>,
          snd (getCached (clockLookup w) cacheKey cache))"
proof -
  let ?src = "httpGet w (baseUrl @ ''/latest'') (buildParams sanitizedBase sanitizedSymbols)"
  have "\<forall>j \<le> 2. \<exists>e. ?src (0 + j) = Inl e" using fail by simp
  then have "\<exists>e. retry 2 ?src 0 = Inl e" by (rule retry_all_fail)
  then have r: "retry retryAttempts ?src 0 = Inl HttpErrorResponse"
    by (metis http_error.exhaust retryAttempts_def)
  obtain c1 where g: "getCached (clockLookup w) cacheKey cache = (None, c1)"
    using miss by (metis prod.collapse)
  show ?thesis
    using r g assms(1-3)
    by (simp add: getLatestRates_def Let_def catchError_def rxMap_def
        getFallbackExchangeRate_def createEmptyExchangeRate_def orElse_def
        sanitizeCurrencyCode_idem sanitizeCurrencyCode_nonempty)
qed

theorem getLatestRates_fallback_witness:
  "getLatestRates offlineWorld (Some ''usd'') None [] =
     (Inr \<lparr>ExchangeRate.base = ''USD'', date = ''2024-12-26'', ExchangeRate.rates = []\<rparr>, [])"
  using getLatestRates_fallback[OF refl refl refl, of offlineWorld "Some ''usd''" None "[]"]
  by (simp add: offlineWorld_def getCached_def sanitize_samples)

lemma sanitizeAmount_number:
  "\<exists>a. sanitizeAmount parseFloat (VNum amount) = Fin a \<and> 0 \<le> a"
  by (cases amount) (auto simp: sanitizeAmount_def js_ge_def js_le_def js_eq_def)

lemma convertWith_value:
  "0 < a \<Longrightarrow> convertWith (Fin a) t d =
     Fin (case map_of (ExchangeRate.rates d) t of
            Some (Fin r) \<Rightarrow> if 0 < r then a * r else 0
          | _ \<Rightarrow> 0)"
  by (auto simp: convertWith_def truthy_def js_le_def js_eq_def split: option.splits jsnum.splits)


lemma slow_latest:
  "getLatestRates slowWorld (Some ''USD'') (Some [''GBP'']) [] = 
   (Inr \<lparr>ExchangeRate.base = ''USD'', date = ''2024-12-25'', ExchangeRate.rates = [(''GBP'', Fin (4/5))]\<rparr>,
    [(''latest_USD_GBP'', \<lparr>data = \<lparr>ExchangeRate.base = ''USD'', date = ''2024-12-25'', ExchangeRate.rates = [(''GBP'', Fin (4/5))]\<rparr>, timestamp = 5\<rparr>)])"
  by code_simp

lemma slow_latest_jpy:
  "fst (getLatestRates slowWorld (Some ''USD'') (Some [''JPY'']) []) = 
   Inr \<lparr>ExchangeRate.base = ''USD'', date = ''2024-12-25'', ExchangeRate.rates = [(''GBP'', Fin (4/5))]\<rparr>"
  by code_simp

lemma amount_samples:
  "sanitizeAmount (\<lambda>s. NaN) (VNum (Fin 10)) = Fin 10"
  "sanitizeAmount (\<lambda>s. NaN) (VNum (Fin (- 10))) = Fin 0"
  by (simp_all add: sanitizeAmount_def js_ge_def js_le_def js_eq_def)


subsection \<open>Moving averages\<close>

lemma take_drop_nth: "k + m \<le> length xs \<Longrightarrow> take m (drop k xs) = map (\<lambda>j. xs ! j) [k..<k + m]"
  by (rule nth_equalityI) simp_all

lemma finiteValues_present: "finiteValues ws = map Fin (presentValues ws)"
  by (induction ws rule: presentValues.induct) simp_all

lemma foldl_add_Fin: "foldl js_add (Fin a) (map Fin xs) = Fin (a + sum_list xs)"
  by (induction xs arbitrary: a) (simp_all add: add.assoc)

lemma sumOf_Fin: "sumOf (map Fin xs) = Fin (sum_list xs)"
  by (simp add: sumOf_def foldl_add_Fin)

lemma mean_Fin:
  "xs \<noteq> [] \<Longrightarrow> js_div (sumOf (map Fin xs)) (lengthOf (map Fin xs)) = Fin (sum_list xs / real (length xs))"
  by (simp add: sumOf_Fin lengthOf_def)

lemma slice_trailing:
  assumes "i < length ds" "2 \<le> vp" "\<not> int i < vp - 1"
  shows "slice ds (int i - vp + 1) (int i + 1) = trailingWindow ds (nat vp) i"
proof -
  have k: "nat (int i - vp + 1) = Suc i - nat vp" using assms by linarith
  have m: "nat (int i + 1 - (int i - vp + 1)) = nat vp" by simp
  have "slice ds (int i - vp + 1) (int i + 1) = take (nat vp) (drop (Suc i - nat vp) ds)"
    using assms by (simp add: slice_def Let_def min_def k)
  also have "\<dots> = map (\<lambda>j. ds ! j) [Suc i - nat vp..<Suc i - nat vp + nat vp]"
    using assms by (intro take_drop_nth) linarith
  also have "Suc i - nat vp + nat vp = Suc i" using assms by linarith
  finally show ?thesis by (simp add: trailingWindow_def)
qed

lemma maValue_spec:
  assumes "i < length ds" "vp = max 2 (min 100 period)"
  shows "maValue ds vp i =
         (if i < clampPeriod period - 1 then None
          else map_option Fin (meanOfValid (trailingWindow ds (clampPeriod period) i)))"
proof -
  have vp2: "2 \<le> vp" using assms(2) by simp
  have cp: "clampPeriod period = nat vp" using assms(2) by (simp add: clampPeriod_def)
  have lt: "(int i < vp - 1) = (i < clampPeriod period - 1)" using vp2 cp by linarith
  show ?thesis
  proof (cases "int i < vp - 1")
    case True
    then show ?thesis using lt by (simp add: maValue_def)
  next
    case False
    have w: "slice ds (int i - vp + 1) (int i + 1) = trailingWindow ds (nat vp) i"
      using assms(1) vp2 False by (rule slice_trailing)
    show ?thesis
      using False lt w cp
      by (simp add: maValue_def Let_def finiteValues_present meanOfValid_def mean_Fin)
  qed
qed

lemma maLoop_append:
  "i \<le> length ds \<Longrightarrow> maLoop ds vp i result = result @ map (maValue ds vp) [i..<length ds]"
proof (induction ds vp i result rule: maLoop.induct)
  case (1 ds vp i result)
  show ?case
  proof (cases "i < length ds")
    case True
    then have "maLoop ds vp i result = maLoop ds vp (Suc i) (result @ [maValue ds vp i])"
      by (subst maLoop.simps) simp
    also have "\<dots> = (result @ [maValue ds vp i]) @ map (maValue ds vp) [Suc i..<length ds]"
      using True "1.IH" by simp
    also have "\<dots> = result @ map (maValue ds vp) [i..<length ds]"
      using True by (simp add: upt_conv_Cons)
    finally show ?thesis .
  next
    case False
    with "1.prems" have "i = length ds" by simp
    then show ?thesis by (subst maLoop.simps) simp
  qed
qed

lemma calculateMA_map:
  "calculateMA ds period = map (maValue ds (max 2 (min 100 period))) [0..<length ds]"
  by (simp add: calculateMA_def maLoop_append)


lemma emaState_skip:
  "ds ! k = None \<or> (\<exists>x. ds ! k = Some x \<and> \<not> isFinite x) \<Longrightarrow>
   emaState ds p f (Suc k) = emaState ds p f k"
  by (auto split: option.splits jsnum.splits)

lemma emaOutput_skip:
  "ds ! k = None \<or> (\<exists>x. ds ! k = Some x \<and> \<not> isFinite x) \<Longrightarrow> emaOutput ds p f k = None"
  by (auto simp: emaOutput_def split: option.splits jsnum.splits)

lemma seed_value:
  assumes "2 \<le> vp"
  shows "(let firstValues = finiteValues (slice ds 0 (min vp (int i + 1)))
          in if length firstValues > 0
             then Some (js_div (sumOf firstValues) (lengthOf firstValues)) else None) =
         map_option Fin (meanOfValid (take (min (nat vp) (Suc i)) ds))"
proof -
  have "min vp (int i + 1) = int (min (nat vp) (Suc i))" using assms by linarith
  then have "slice ds 0 (min vp (int i + 1)) = take (min (nat vp) (Suc i)) ds"
    by (simp only: slice_take)
  then show ?thesis
    by (simp add: Let_def finiteValues_present meanOfValid_def mean_Fin)
qed

lemma emaLoop_spec:
  assumes "2 \<le> vp"
  shows "i \<le> length ds \<Longrightarrow> ema = map_option Fin (emaState ds (nat vp) f i) \<Longrightarrow>
     emaLoop ds vp (Fin f) i ema result =
     result @ map (\<lambda>j. map_option Fin (emaOutput ds (nat vp) f j)) [i..<length ds]"
proof (induction "length ds - i" arbitrary: i ema result)
  case 0
  then have "i = length ds" by simp
  then show ?case by (subst emaLoop.simps) simp
next
  case (Suc n)
  then have lt: "i < length ds" by simp
  let ?p = "nat vp"
  let ?out = "\<lambda>j. map_option Fin (emaOutput ds ?p f j)"
  have n: "n = length ds - Suc i" using Suc.hyps(2) by simp
  have le: "Suc i \<le> length ds" using lt by simp
  have rest: "\<And>e r. e = map_option Fin (emaState ds ?p f (Suc i)) \<Longrightarrow>
      emaLoop ds vp (Fin f) (Suc i) e r = r @ map ?out [Suc i..<length ds]"
    using Suc.hyps(1)[OF n le] by simp
  have split: "[i..<length ds] = i # [Suc i..<length ds]"
    using lt by (simp add: upt_conv_Cons)
  consider (skip) "ds ! i = None \<or> (\<exists>x. ds ! i = Some x \<and> \<not> isFinite x)"
    | (valid) x where "ds ! i = Some (Fin x)"
  proof (cases "ds ! i")
    case None
    then show ?thesis using that(1) by simp
  next
    case (Some a)
    then show ?thesis using that by (cases a) auto
  qed
  then show ?case
  proof cases
    case skip
    have st: "emaState ds ?p f (Suc i) = emaState ds ?p f i"
      using skip by (rule emaState_skip)
    have o: "?out i = None" using skip by (simp add: emaOutput_skip)
    have "emaLoop ds vp (Fin f) i ema result = emaLoop ds vp (Fin f) (Suc i) ema (result @ [None])"
      using skip lt by (subst emaLoop.simps) (auto split: option.splits)
    also have "\<dots> = (result @ [None]) @ map ?out [Suc i..<length ds]"
      using rest[of ema] Suc.prems(2) st by simp
    finally show ?thesis using split o by simp
  next
    case valid
    have o: "?out i = map_option Fin (emaState ds ?p f (Suc i))"
      using valid by (simp add: emaOutput_def)
    show ?thesis
    proof (cases "emaState ds ?p f i")
      case None
      then have e: "ema = None" using Suc.prems(2) by simp
      have st: "emaState ds ?p f (Suc i) = meanOfValid (take (min ?p (Suc i)) ds)"
        using valid None by simp
      have "emaLoop ds vp (Fin f) i ema result =
            emaLoop ds vp (Fin f) (Suc i) (map_option Fin (emaState ds ?p f (Suc i)))
              (result @ [map_option Fin (emaState ds ?p f (Suc i))])"
        using valid lt e seed_value[OF assms, of ds i] st
        by (subst emaLoop.simps) (simp add: Let_def)
      also have "\<dots> = (result @ [map_option Fin (emaState ds ?p f (Suc i))]) @
                        map ?out [Suc i..<length ds]"
        using rest by simp
      finally show ?thesis using split o by simp
    next
      case (Some prev)
      then have e: "ema = Some (Fin prev)" using Suc.prems(2) by simp
      have st: "emaState ds ?p f (Suc i) = Some ((x - prev) * f + prev)"
        using valid Some by simp
      have "emaLoop ds vp (Fin f) i ema result =
            emaLoop ds vp (Fin f) (Suc i) (map_option Fin (emaState ds ?p f (Suc i)))
              (result @ [map_option Fin (emaState ds ?p f (Suc i))])"
        using valid lt e st
        by (subst emaLoop.simps) (simp add: Let_def js_sub_def)
      also have "\<dots> = (result @ [map_option Fin (emaState ds ?p f (Suc i))]) @
                        map ?out [Suc i..<length ds]"
        using rest by simp
      finally show ?thesis using split o by simp
    qed
  qed
qed


text \<open>
  The seed in closed form: no state after \<open>k\<close> inputs means that none of the first
  \<open>min p k\<close> inputs is valid, so a valid input at the index \<open>k\<close> seeds the state with
  its own value when \<open>k < p\<close>, and forms no state when \<open>k \<ge> p\<close>.
\<close>

lemma presentValues_append: "presentValues (xs @ ys) = presentValues xs @ presentValues ys"
  by (induction xs rule: presentValues.induct) simp_all

lemma emaState_None_no_valid:
  "k \<le> length ds \<Longrightarrow> emaState ds p f k = None \<Longrightarrow> presentValues (take (min p k) ds) = []"
proof (induction k)
  case 0
  then show ?case by simp
next
  case (Suc k)
  then have lt: "k < length ds" by simp
  show ?case
  proof (cases "\<exists>x. ds ! k = Some (Fin x)")
    case True
    then obtain x where x: "ds ! k = Some (Fin x)" by blast
    have "emaState ds p f k = None"
      using Suc.prems(2) x by (cases "emaState ds p f k") simp_all
    then have "meanOfValid (take (min p (Suc k)) ds) = None"
      using Suc.prems(2) x by simp
    then show ?thesis by (simp add: meanOfValid_def Let_def split: if_splits)
  next
    case False
    then have skip: "presentValues [ds ! k] = []"
      by (cases "ds ! k"; simp) (metis jsnum.exhaust presentValues.simps)
    have st: "emaState ds p f k = None"
      using Suc.prems(2) False by (auto split: option.splits jsnum.splits)
    have ih: "presentValues (take (min p k) ds) = []" using Suc.IH st lt by simp
    show ?thesis
    proof (cases "k < p")
      case True
      then have "min p (Suc k) = Suc k" "min p k = k" by simp_all
      then have "take (min p (Suc k)) ds = take (min p k) ds @ [ds ! k]"
        using lt by (simp add: take_Suc_conv_app_nth)
      then show ?thesis using ih skip by (simp add: presentValues_append)
    next
      case False
      then have "min p (Suc k) = min p k" by simp
      then show ?thesis using ih by simp
    qed
  qed
qed

lemma ema_seed_is_first_valid:
  assumes "k < length ds" "ds ! k = Some (Fin x)" "emaState ds p f k = None"
  shows "emaState ds p f (Suc k) = (if k < p then Some x else None)"
proof -
  have nv: "presentValues (take (min p k) ds) = []"
    using emaState_None_no_valid[of k ds p f] assms by simp
  have st: "emaState ds p f (Suc k) = meanOfValid (take (min p (Suc k)) ds)"
    using assms by simp
  show ?thesis
  proof (cases "k < p")
    case True
    then have "min p (Suc k) = Suc k" "min p k = k" by simp_all
    then have "take (min p (Suc k)) ds = take (min p k) ds @ [Some (Fin x)]"
      using assms(1,2) by (simp add: take_Suc_conv_app_nth)
    then show ?thesis
      using True nv st by (simp add: meanOfValid_def presentValues_append)
  next
    case False
    then have "min p (Suc k) = min p k" by simp
    then show ?thesis using False nv st by (simp add: meanOfValid_def)
  qed
qed

subsection \<open>Volatility and trend\<close>

lemma validRate_iff: "validRate r \<longleftrightarrow> (\<exists>a. r = Fin a \<and> 0 < a)"
  by (cases r) (simp_all add: validRate_def js_gt_def)

lemma filter_validRate: "filter validRate series = map Fin (validSubset series)"
  by (induction series rule: validSubset.induct) (simp_all add: validRate_iff)

lemma validSubset_pos: "x \<in> set (validSubset series) \<Longrightarrow> 0 < x"
  by (induction series rule: validSubset.induct) (auto split: if_splits)

lemma validSubset_Fin: "\<forall>x \<in> set xs. 0 < x \<Longrightarrow> validSubset (map Fin xs) = xs"
  by (induction xs) simp_all

lemma length_validSubset: "length (validSubset series) \<le> length series"
  by (induction series rule: validSubset.induct) auto

lemma foldl_squareStep:
  "foldl (squareStep (Fin m)) (Fin a) (map Fin xs) = Fin (a + (\<Sum>x\<leftarrow>xs. (x - m)\<^sup>2))"
  by (induction xs arbitrary: a) (simp_all add: squareStep_def js_sub_def Let_def power2_eq_square add.assoc)

lemma sum_list_pos: "xs \<noteq> [] \<Longrightarrow> \<forall>x \<in> set xs. 0 < x \<Longrightarrow> 0 < sum_list (xs :: real list)"
proof (induction xs)
  case Nil
  then show ?case by simp
next
  case (Cons a xs)
  have "0 \<le> sum_list xs"
  proof (rule sum_list_nonneg)
    fix x assume "x \<in> set xs"
    then show "0 \<le> x" using Cons.prems(2) by (simp add: less_imp_le)
  qed
  moreover have "0 < a" using Cons.prems(2) by simp
  ultimately show ?case by simp
qed

lemma mean_pos: "xs \<noteq> [] \<Longrightarrow> \<forall>x \<in> set xs. 0 < x \<Longrightarrow> 0 < mean xs"
  by (simp add: mean_def sum_list_pos)

lemma sliceFrom_drop: "m \<le> length xs \<Longrightarrow> sliceFrom xs (int m) = drop m xs"
  by (simp add: sliceFrom_def slice_def Let_def min_def)

text \<open>The standard deviation and the volatility of both components on finite values.\<close>

lemma stdDev_formula:
  assumes "xs \<noteq> []"
  shows "js_sqrt (js_div (foldl (squareStep (Fin (mean xs))) (Fin 0) (map Fin xs))
                         (lengthOf (map Fin xs))) = Fin (populationStdDev xs)"
proof -
  have n: "real (length xs) \<noteq> 0" using assms(1) by simp
  have "0 \<le> (\<Sum>x\<leftarrow>xs. (x - mean xs)\<^sup>2) / real (length xs)"
    by (intro divide_nonneg_nonneg sum_list_nonneg) auto
  then show ?thesis
    using n by (simp add: foldl_squareStep lengthOf_def populationStdDev_def)
qed

lemma volatility_formula:
  assumes "xs \<noteq> []" "mean xs \<noteq> 0"
  shows "js_mul (js_div (js_sqrt (js_div (foldl (squareStep (Fin (mean xs))) (Fin 0) (map Fin xs))
                                         (lengthOf (map Fin xs))))
                        (Fin (mean xs))) (Fin 100) =
         Fin (populationStdDev xs / mean xs * 100)"
  using assms(2) by (simp add: stdDev_formula[OF assms(1)])

lemma calculateVolatility_spec:
  "calculateVolatility series = map_option Fin (volatilitySpec (validSubset series))"
proof -
  let ?vs = "validSubset series"
  show ?thesis
  proof (cases "length ?vs < 2")
    case True
    then show ?thesis
      by (simp add: calculateVolatility_def volatilitySpec_def filter_validRate Let_def)
  next
    case False
    then have ne: "?vs \<noteq> []" by auto
    have len: "\<not> length series < 2" using False length_validSubset[of series] by linarith
    have mean: "js_div (sumOf (map Fin ?vs)) (lengthOf (map Fin ?vs)) = Fin (mean ?vs)"
      using ne by (simp add: mean_Fin mean_def)
    have m0: "mean ?vs \<noteq> 0" using mean_pos[OF ne] validSubset_pos by force
    show ?thesis
      using False len m0
      by (simp add: calculateVolatility_def volatilitySpec_def filter_validRate Let_def mean
          js_eq_def stdDev_formula[OF ne])
  qed
qed

lemma rateOn_valid: "rateOn d c day = Some r \<Longrightarrow> validRate r"
  by (auto simp: rateOn_def validRate_def split: option.splits if_splits)

lemma chartRates_valid: "r \<in> set (chartRates d c) \<Longrightarrow> validRate r"
  by (auto simp: chartRates_def Let_def List.map_filter_def dest: rateOn_valid)

lemma chartRates_Fin: "chartRates d c = map Fin (validSubset (chartRates d c))"
proof -
  have "filter validRate (chartRates d c) = chartRates d c"
    using chartRates_valid by (simp add: filter_id_conv)
  then show ?thesis using filter_validRate[of "chartRates d c"] by simp
qed

lemma average_Fin:
  "js_div (sumOf (map Fin xs)) (lengthOf (map Fin xs)) = (if xs = [] then NaN else Fin (mean xs))"
  by (simp add: sumOf_Fin lengthOf_def mean_def)

lemma empty_average: "js_div (sumOf []) (lengthOf ([] :: jsnum list)) = NaN"
  by (simp add: sumOf_def lengthOf_def)

lemma js_lt_NaN [simp]: "js_lt x NaN = False"
  by (cases x) simp_all

lemma take_Fin: "slice (map Fin vs) 0 (int (length vs div 2)) = map Fin (take (length vs div 2) vs)"
  by (simp add: slice_take take_map)

lemma drop_Fin: "sliceFrom (map Fin vs) (int (length vs div 2)) = map Fin (drop (length vs div 2) vs)"
  using sliceFrom_drop[of "length vs div 2" "map Fin vs"] by (simp add: drop_map)

lemma halves_nonempty:
  "2 \<le> length vs \<Longrightarrow> take (length vs div 2) vs \<noteq> [] \<and> drop (length vs div 2) vs \<noteq> []"
  by auto

lemma calculateMetrics_None: "calculateMetrics d c = None \<longleftrightarrow> validSubset (chartRates d c) = []"
proof -
  have "chartRates d c = [] \<longleftrightarrow> validSubset (chartRates d c) = []"
    using chartRates_Fin[of d c] by (metis map_is_Nil_conv)
  then show ?thesis by (simp add: calculateMetrics_def Let_def)
qed

lemma calculateMetrics_volatility:
  assumes "vs = validSubset (chartRates d c)" "vs \<noteq> []"
  shows "map_option volatility (calculateMetrics d c) =
         Some (Fin (populationStdDev vs / mean vs * 100))"
proof -
  have rs: "chartRates d c = map Fin vs" using assms(1) chartRates_Fin by simp
  have pos: "\<forall>x \<in> set vs. 0 < x" using assms(1) validSubset_pos by blast
  have m0: "mean vs \<noteq> 0" using mean_pos[OF assms(2) pos] by simp
  have avg: "js_div (sumOf (map Fin vs)) (lengthOf (map Fin vs)) = Fin (mean vs)"
    using assms(2) by (simp add: average_Fin)
  show ?thesis
    using assms(2) m0 volatility_formula[OF assms(2) m0]
    by (simp add: calculateMetrics_def Let_def rs avg js_eq_def)
qed

lemma calculateMetrics_trend:
  assumes "vs = validSubset (chartRates d c)" "vs \<noteq> []"
  shows "map_option PerformanceMetrics.trend (calculateMetrics d c) = Some (trendSpec vs)"
proof -
  have rs: "chartRates d c = map Fin vs" using assms(1) chartRates_Fin by simp
  let ?mid = "length vs div 2"
  have t: "map_option PerformanceMetrics.trend (calculateMetrics d c) =
     Some (let firstAvg = js_div (sumOf (map Fin (take ?mid vs))) (lengthOf (map Fin (take ?mid vs)));
               secondAvg = js_div (sumOf (map Fin (drop ?mid vs))) (lengthOf (map Fin (drop ?mid vs)))
           in if js_gt secondAvg (js_mul firstAvg (Fin (101 / 100))) then Up
              else if js_lt secondAvg (js_mul firstAvg (Fin (99 / 100))) then Down
              else Neutral)"
    using assms(2) by (simp add: calculateMetrics_def Let_def rs take_Fin drop_Fin)
  show ?thesis
  proof (cases "length vs < 2")
    case True
    then have "take ?mid vs = []" by simp
    then show ?thesis
      using True assms(2)
      by (simp add: t average_Fin Let_def trendSpec_def js_gt_def empty_average
          del: take_eq_Nil)
  next
    case False
    then have "take ?mid vs \<noteq> []" "drop ?mid vs \<noteq> []" using halves_nonempty[of vs] by simp_all
    then show ?thesis
      using False by (simp add: t average_Fin Let_def trendSpec_def js_gt_def del: take_eq_Nil drop_eq_Nil)
  qed
qed

lemma determineTrend_spec: "determineTrend series = trendByChange (validSubset series)"
proof -
  let ?vs = "validSubset series"
  let ?mid = "length ?vs div 2"
  show ?thesis
  proof (cases "length ?vs < 2")
    case True
    then show ?thesis
      by (simp add: determineTrend_def trendByChange_def filter_validRate Let_def)
  next
    case False
    have len: "\<not> length series < 2" using False length_validSubset[of series] by linarith
    have ne: "take ?mid ?vs \<noteq> []" "drop ?mid ?vs \<noteq> []"
      using False halves_nonempty[of ?vs] by simp_all
    have pos: "\<forall>x \<in> set (take ?mid ?vs). 0 < x"
      using validSubset_pos by (metis in_set_takeD)
    have m0: "mean (take ?mid ?vs) \<noteq> 0" using mean_pos[OF ne(1) pos] by simp
    show ?thesis
      using False len ne m0
      by (simp add: determineTrend_def trendByChange_def filter_validRate Let_def take_Fin drop_Fin
          average_Fin js_eq_def js_sub_def js_gt_def del: take_eq_Nil drop_eq_Nil)
  qed
qed

subsection \<open>Currency strength\<close>

lemma changeAgainst_Fin: "0 < r \<Longrightarrow> changeAgainst (Fin r) past = Fin (changeOrZero r past)"
  by (auto simp: changeAgainst_def changeOrZero_def truthy_def js_gt_def js_sub_def
      split: option.splits jsnum.splits)

lemma percent_Fin:
  "(case p of None \<Rightarrow> Fin 0 | Some q \<Rightarrow> if truthy q \<and> isFinite q then q else Fin 0) =
   Fin (percentOrZero p)"
  by (auto simp: percentOrZero_def truthy_def split: option.splits jsnum.splits)

lemma hasValidRate_iff: "hasValidRate c \<longleftrightarrow> (\<exists>r. rate c = Fin r \<and> 0 < r)"
  by (cases "rate c") (simp_all add: hasValidRate_def)

lemma invalid_rate_skipped:
  "\<not> hasValidRate c \<Longrightarrow> \<not> isFinite (rate c) \<or> js_le (rate c) (Fin 0)"
  by (cases "rate c") (auto simp: hasValidRate_def js_le_def js_eq_def)

lemma strengthsLoop_valid:
  assumes "hasValidRate c"
  shows "strengthsLoop h7 h30 (c # rest) results =
         strengthsLoop h7 h30 rest (results @ [strengthEntry h7 h30 c])"
proof -
  obtain r where r: "rate c = Fin r" "0 < r" using assms hasValidRate_iff by blast
  have nle: "\<not> js_le (Fin r) (Fin 0)" using r(2) by (simp add: js_le_def js_eq_def)
  show ?thesis
    using r nle
    by (simp add: Let_def changeAgainst_Fin percent_Fin strengthEntry_def strengthScore_def
        classifyStrength_def STRENGTH_THRESHOLD_STRONG_def STRENGTH_THRESHOLD_WEAK_def js_gt_def
        algebra_simps)
qed

lemma strengthsLoop_invalid:
  "\<not> hasValidRate c \<Longrightarrow> strengthsLoop h7 h30 (c # rest) results = strengthsLoop h7 h30 rest results"
  using invalid_rate_skipped[of c] by (auto simp: Let_def)

lemma strengthsLoop_eq:
  "strengthsLoop h7 h30 cs results = results @ map (strengthEntry h7 h30) (filter hasValidRate cs)"
proof (induction cs arbitrary: results)
  case Nil
  then show ?case by simp
next
  case (Cons c cs)
  show ?case
  proof (cases "hasValidRate c")
    case True
    then show ?thesis
      using Cons.IH[of "results @ [strengthEntry h7 h30 c]"]
      by (simp add: strengthsLoop_valid del: strengthsLoop.simps)
  next
    case False
    then show ?thesis
      using Cons.IH[of results]
      by (simp add: strengthsLoop_invalid del: strengthsLoop.simps)
  qed
qed


subsection \<open>The claims on the analytics, with sample runs\<close>

lemma singlePoint_rates: "validSubset (chartRates singlePoint ''USD'') = [10]"
  by code_simp

lemma risingWeek_rates: "validSubset (chartRates risingWeek ''USD'') = [1, 1, 1, 2, 2, 2]"
  by code_simp







lemma ma_sample:
  "map (map_option Fin) (movingAverageSpec [Some (Fin 4), None, Some NaN, Some (Fin 8)] 1) =
   [None, Some (Fin 4), None, Some (Fin 8)]"
  by code_simp


lemma ema_sample:
  "map (map_option Fin) (exponentialMovingAverageSpec [None, Some (Fin 3), None, Some NaN, Some (Fin 5)] 2) =
   [None, Some (Fin 3), None, None, Some (Fin (13 / 3))]"
  "map (map_option Fin) (exponentialMovingAverageSpec [None, None, Some (Fin 3), Some (Fin 4)] 2) =
   [None, None, None, None]"
  by code_simp+


lemma strength_sample:
  "sort_key (\<lambda>r. - finVal (strength r))
     (map (strengthEntry [(''USD'', Fin 1), (''GBP'', Fin 1)] [(''USD'', Fin 2)])
        (filter hasValidRate sampleCurrencies)) =
   [\<lparr>code = ''USD'', name = ''Dollar'', strength = Fin (- 1), trend = Moderate,
     change24h = Fin 10, change7d = Fin 10, change30d = Fin (- 45)\<rparr>,
    \<lparr>code = ''GBP'', name = ''Pound'', strength = Fin (- 3), trend = Weak,
     change24h = Fin 0, change7d = Fin (- 10), change30d = Fin 0\<rparr>]"
  by code_simp


end
